theory Spec2Isabelle
  imports Complex_Main
begin

section \<open>Long-audio transcription pipeline (whisper\_transcriber.py)\<close>

text \<open>
  A shallow embedding of class \<open>WhisperTranscriber\<close>: \<open>transcribe_audio\<close>,
  \<open>split_audio\<close>, \<open>transcribe_long_audio\<close> and \<open>save_transcript_to_markdown\<close>.

  Conventions of the embedding.
  \<^item> A Python \<open>str\<close> is the list of its code points (\<open>pystr\<close>); the literals of the
    source are written out code point by code point.
  \<^item> Timestamps are the recognizer's seconds. They are modelled as exact reals: Python's
    \<open>int(x)\<close> is truncation towards zero, \<open>x % m\<close> is the floored remainder.
  \<^item> A pydub \<open>AudioSegment\<close> is the list of its one-millisecond frames, so that
    \<open>len(audio)\<close> is the length of the list and \<open>audio[i:j]\<close> is a slice of it.
  \<^item> Exceptions are values: every function that can raise returns \<open>error + 'a\<close>.
  \<^item> The file system is a record of the file contents under each path and of the set of
    directories; the functions that write files or create directories take it and return
    it. A text file holds the string written to it.
  \<^item> The collaborators outside the repository (whisper, OpenCC, pydub's silence splitter,
    \<open>os.path\<close>, \<open>os.makedirs\<close>, the writability of a path) are the fields of the record
    \<open>env\<close>.
  Logging is left out.
\<close>

subsection \<open>Strings and number formatting\<close>

type_synonym pystr = "nat list"

definition ascii :: "string \<Rightarrow> pystr" where
  "ascii s = map of_char s"

text \<open>\<open>str(n)\<close> for a non-negative integer: its decimal digits.\<close>

fun digits :: "nat \<Rightarrow> pystr" where
  "digits n = (if n < 10 then [48 + n] else digits (n div 10) @ [48 + n mod 10])"

declare digits.simps [simp del]

text \<open>\<open>f"{n}"\<close> for an integer.\<close>

definition str_int :: "int \<Rightarrow> pystr" where
  "str_int n = (if n < 0 then 45 # digits (nat (- n)) else digits (nat n))"

text \<open>\<open>f"{n:0wd}"\<close>: zero padding to width \<open>w\<close>, placed after the sign.\<close>

definition fmt_0d :: "nat \<Rightarrow> int \<Rightarrow> pystr" where
  "fmt_0d w n =
     (if n < 0
      then 45 # replicate (w - 1 - length (digits (nat (- n)))) 48 @ digits (nat (- n))
      else replicate (w - length (digits (nat n))) 48 @ digits (nat n))"

text \<open>\<open>int(x)\<close> of a float truncates towards zero.\<close>

definition py_int :: "real \<Rightarrow> int" where
  "py_int x = (if 0 \<le> x then \<lfloor>x\<rfloor> else \<lceil>x\<rceil>)"

text \<open>\<open>x % m\<close>: the remainder takes the sign of the divisor.\<close>

definition py_mod :: "real \<Rightarrow> real \<Rightarrow> real" where
  "py_mod x m = x - m * of_int \<lfloor>x / m\<rfloor>"

text \<open>The code points for which \<open>str.isspace\<close> holds; \<open>str.strip()\<close> removes them at both ends.\<close>

definition isspace :: "nat \<Rightarrow> bool" where
  "isspace c \<longleftrightarrow>
     (9 \<le> c \<and> c \<le> 13) \<or> (28 \<le> c \<and> c \<le> 32) \<or> c = 133 \<or> c = 160 \<or> c = 5760 \<or>
     (8192 \<le> c \<and> c \<le> 8202) \<or> c = 8232 \<or> c = 8233 \<or> c = 8239 \<or> c = 8287 \<or> c = 12288"

definition strip :: "pystr \<Rightarrow> pystr" where
  "strip s = rev (dropWhile isspace (rev (dropWhile isspace s)))"

text \<open>\<open>" ".join(xs)\<close>.\<close>

fun join_space :: "pystr list \<Rightarrow> pystr" where
  "join_space [] = []"
| "join_space [x] = x"
| "join_space (x # y # ys) = x @ 32 # join_space (y # ys)"

subsection \<open>Data\<close>

text \<open>
  A segment is the recognizer's dictionary with the keys \<open>start\<close>, \<open>end\<close> and \<open>text\<close>.
  A transcript is a dictionary whose keys \<open>text\<close>, \<open>segments\<close> and \<open>language\<close> may be
  absent: the renderer reads them with \<open>get\<close> and \<open>in\<close>.
\<close>

record segment =
  seg_start :: real
  seg_end :: real
  seg_text :: pystr

record transcript =
  tr_text :: "pystr option"
  tr_segments :: "segment list option"
  tr_language :: "pystr option"

datatype error =
  ModelLoadError | RecognizerError | KeyError | ValueError | AudioLoadError | IOError | OSError

datatype 'a content = Audio "'a list" | Text pystr

record 'a fs =
  contents :: "pystr \<rightharpoonup> 'a content"
  directories :: "pystr set"

subsection \<open>Rendering: \<open>save_transcript_to_markdown\<close>\<close>

definition max_time :: real where
  "max_time = 10 * 3600"

text \<open>Lines 299 to 306: the duration of the metadata block.\<close>

definition duration_str :: "real \<Rightarrow> pystr" where
  "duration_str duration =
     (let hours = py_int (duration / 3600);
          minutes = py_int (py_mod duration 3600 / 60);
          seconds = py_int (py_mod duration 60)
      in if hours > 0
         then str_int hours @ [0x5C0F, 0x65F6] @ str_int minutes @ [0x5206, 0x949F]
              @ str_int seconds @ [0x79D2]
         else str_int minutes @ [0x5206, 0x949F] @ str_int seconds @ [0x79D2])"

text \<open>Lines 291 to 309: the metadata block.\<close>

definition language_line :: "transcript \<Rightarrow> pystr" where
  "language_line tr =
     ascii ''- '' @ [0x8BED, 0x8A00] @ ascii '': ''
     @ (case tr_language tr of Some l \<Rightarrow> l | None \<Rightarrow> [0x672A, 0x77E5]) @ [10]"

definition duration_line :: "transcript \<Rightarrow> pystr" where
  "duration_line tr =
     (case tr_segments tr of
        None \<Rightarrow> []
      | Some segs \<Rightarrow>
          if segs = [] then []
          else ascii ''- '' @ [0x65F6, 0x957F] @ ascii '': ''
               @ duration_str (min (seg_end (last segs)) max_time) @ [10])"

definition metadata_block :: "transcript \<Rightarrow> pystr" where
  "metadata_block tr =
     ascii ''## '' @ [0x97F3, 0x9891, 0x4FE1, 0x606F] @ [10, 10]
     @ language_line tr @ duration_line tr @ [10]"

text \<open>Lines 331 to 342: the two timestamp formats.\<close>

definition fmt_hms :: "real \<Rightarrow> pystr" where
  "fmt_hms t =
     fmt_0d 2 (py_int (t / 3600)) @ [58] @ fmt_0d 2 (py_int (py_mod t 3600 / 60)) @ [58]
     @ fmt_0d 2 (py_int (py_mod t 60))"

definition fmt_ms :: "real \<Rightarrow> pystr" where
  "fmt_ms t = fmt_0d 2 (py_int (t / 60)) @ [58] @ fmt_0d 2 (py_int (py_mod t 60))"

text \<open>Lines 326 to 342: \<open>start_formatted\<close> and \<open>end_formatted\<close> of one segment.\<close>

definition format_timestamps :: "real \<Rightarrow> real \<Rightarrow> pystr \<times> pystr" where
  "format_timestamps start_time0 end_time0 =
     (let start_time = min start_time0 max_time;
          end_time = min end_time0 max_time
      in if start_time \<ge> 3600 \<or> end_time \<ge> 3600
         then (fmt_hms start_time, fmt_hms end_time)
         else (fmt_ms start_time, fmt_ms end_time))"

text \<open>Lines 320 to 344: the line of one segment.\<close>

definition segment_line :: "segment \<Rightarrow> pystr" where
  "segment_line s =
     (let (start_formatted, end_formatted) = format_timestamps (seg_start s) (seg_end s)
      in ascii ''**['' @ start_formatted @ [45] @ end_formatted @ ascii '']** ''
         @ strip (seg_text s) @ [10, 10])"

text \<open>Lines 317 to 344: the timestamped listing.\<close>

definition segment_listing :: "transcript \<Rightarrow> pystr" where
  "segment_listing tr =
     (case tr_segments tr of
        None \<Rightarrow> []
      | Some segs \<Rightarrow>
          if segs = [] then []
          else ascii ''## '' @ [0x5E26, 0x65F6, 0x95F4, 0x6233, 0x7684, 0x5206, 0x6BB5, 0x6587, 0x672C]
               @ [10, 10] @ concat (map segment_line segs))"

text \<open>Lines 288 to 344: everything written to the file, in order.\<close>

definition document :: "transcript \<Rightarrow> pystr" where
  "document tr =
     ascii ''# '' @ [0x97F3, 0x9891, 0x8F6C, 0x5F55] @ [10, 10]
     @ metadata_block tr
     @ ascii ''## '' @ [0x5B8C, 0x6574, 0x8F6C, 0x5F55, 0x6587, 0x672C] @ [10, 10]
     @ strip (case tr_text tr of Some t \<Rightarrow> t | None \<Rightarrow> []) @ [10, 10]
     @ segment_listing tr"

text \<open>The collaborators outside the repository.\<close>

type_synonym recognizer = "pystr \<Rightarrow> pystr \<Rightarrow> error + transcript"

record 'a env =
  whisper_load_model :: "error + recognizer"
  opencc_convert :: "pystr \<Rightarrow> pystr"
  split_on_silence :: "'a list \<Rightarrow> int \<Rightarrow> int \<Rightarrow> int \<Rightarrow> 'a list list"
  writable :: "pystr \<Rightarrow> bool"
  os_makedirs :: "pystr set \<Rightarrow> pystr \<Rightarrow> error + pystr set"
  path_join :: "pystr \<Rightarrow> pystr \<Rightarrow> pystr"
  path_basename :: "pystr \<Rightarrow> pystr"
  path_dirname :: "pystr \<Rightarrow> pystr"
  path_splitext :: "pystr \<Rightarrow> pystr \<times> pystr"

text \<open>
  \<open>os.path.exists\<close>, and \<open>os.makedirs\<close>: given the directories that exist and a path, the
  operating system returns the directories that exist afterwards, or the call raises. File
  contents are not touched.
\<close>

definition path_exists :: "'a fs \<Rightarrow> pystr \<Rightarrow> bool" where
  "path_exists fs p \<longleftrightarrow> p \<in> directories fs \<or> contents fs p \<noteq> None"

definition makedirs :: "'a env \<Rightarrow> 'a fs \<Rightarrow> pystr \<Rightarrow> error + 'a fs" where
  "makedirs env fs p =
     (case os_makedirs env (directories fs) p of
        Inl e \<Rightarrow> Inl e
      | Inr dirs \<Rightarrow> Inr (fs\<lparr>directories := dirs\<rparr>))"

text \<open>
  Lines 156 to 157 and 226 to 227: \<open>if not os.path.exists(d): os.makedirs(d)\<close>.
\<close>

definition ensure_directory :: "'a env \<Rightarrow> 'a fs \<Rightarrow> pystr \<Rightarrow> error + 'a fs" where
  "ensure_directory env fs d = (if \<not> path_exists fs d then makedirs env fs d else Inr fs)"

text \<open>
  Lines 285 to 350. Opening the file raises when the path cannot be written; otherwise the
  file holds the document. The transcript is only read.
\<close>

definition save_transcript_to_markdown ::
  "'a env \<Rightarrow> 'a fs \<Rightarrow> transcript \<Rightarrow> pystr \<Rightarrow> error + 'a fs" where
  "save_transcript_to_markdown env fs tr output_path =
     (if writable env output_path
      then Inr (fs\<lparr>contents := (contents fs)(output_path \<mapsto> Text (document tr))\<rparr>)
      else Inl IOError)"

subsection \<open>The transcriber: \<open>load_model\<close>, \<open>convert_to_simplified\<close>, \<open>transcribe_audio\<close>\<close>

text \<open>
  The fields of the object that the modelled methods read. The recognizer is the loaded
  whisper model: it takes the path of an audio file and the language, and returns a
  transcript or raises.
\<close>

record transcriber =
  to_simplified :: bool
  model :: "recognizer option"

text \<open>
  Lines 102 to 103 and 216 to 217: \<open>if self.model is None: self.load_model()\<close>. The loaded
  model stays in \<open>self.model\<close>; \<open>transcribe_long_audio\<close> passes the transcriber with the
  model set on to the calls it makes.
\<close>

definition get_model :: "'a env \<Rightarrow> transcriber \<Rightarrow> error + recognizer" where
  "get_model env t = (case model t of Some m \<Rightarrow> Inr m | None \<Rightarrow> whisper_load_model env)"

definition convert_to_simplified :: "'a env \<Rightarrow> transcriber \<Rightarrow> pystr \<Rightarrow> pystr" where
  "convert_to_simplified env t txt = (if to_simplified t then opencc_convert env txt else txt)"

definition transcribe_audio ::
  "'a env \<Rightarrow> transcriber \<Rightarrow> pystr \<Rightarrow> pystr \<Rightarrow> error + transcript" where
  "transcribe_audio env t audio_path language =
     (case get_model env t of
        Inl e \<Rightarrow> Inl e
      | Inr m \<Rightarrow>
          (case m audio_path language of
             Inl e \<Rightarrow> Inl e
           | Inr result \<Rightarrow>
               if to_simplified t \<and> language = ascii ''zh''
               then (case tr_text result of
                       None \<Rightarrow> Inl KeyError
                     | Some txt \<Rightarrow>
                         (case tr_segments result of
                            None \<Rightarrow> Inl KeyError
                          | Some segs \<Rightarrow>
                              Inr (result\<lparr>tr_text := Some (convert_to_simplified env t txt),
                                     tr_segments := Some (map (\<lambda>s. s\<lparr>seg_text :=
                                        convert_to_simplified env t (seg_text s)\<rparr>) segs)\<rparr>)))
               else Inr result))"

subsection \<open>Segmentation: \<open>split_audio\<close>\<close>

text \<open>\<open>range(start, stop, step)\<close>; a step of zero raises \<open>ValueError\<close>.\<close>

function range_up :: "int \<Rightarrow> int \<Rightarrow> int \<Rightarrow> int list" where
  "range_up i stop step = (if 0 < step \<and> i < stop then i # range_up (i + step) stop step else [])"
  by pat_completeness auto
termination
  by (relation "measure (\<lambda>(i, stop, step). nat (stop - i))") auto

function range_down :: "int \<Rightarrow> int \<Rightarrow> int \<Rightarrow> int list" where
  "range_down i stop step =
     (if step < 0 \<and> stop < i then i # range_down (i + step) stop step else [])"
  by pat_completeness auto
termination
  by (relation "measure (\<lambda>(i, stop, step). nat (i - stop))") auto

declare range_up.simps [simp del] range_down.simps [simp del]

definition py_range :: "int \<Rightarrow> int \<Rightarrow> int \<Rightarrow> error + int list" where
  "py_range start stop step =
     (if step = 0 then Inl ValueError
      else if 0 < step then Inr (range_up start stop step)
      else Inr (range_down start stop step))"

text \<open>
  \<open>audio[i:j]\<close> for \<open>0 \<le> i\<close>: pydub cuts both bounds down to \<open>len(audio)\<close>. The bounds that
  \<open>split_audio\<close> passes come from \<open>range(0, total, L)\<close> and are never negative.
\<close>

definition audio_slice :: "'a list \<Rightarrow> int \<Rightarrow> int \<Rightarrow> 'a list" where
  "audio_slice audio i j =
     (let n = int (length audio); s = min i n; e = min j n
      in take (nat (e - s)) (drop (nat s) audio))"

text \<open>Line 186: the fixed-length split.\<close>

definition fixed_length_split :: "'a list \<Rightarrow> int \<Rightarrow> error + 'a list list" where
  "fixed_length_split audio chunk_length_ms =
     (case py_range 0 (int (length audio)) chunk_length_ms of
        Inl e \<Rightarrow> Inl e
      | Inr starts \<Rightarrow> Inr (map (\<lambda>i. audio_slice audio i (i + chunk_length_ms)) starts))"

text \<open>Lines 176 to 186: the silence-aware split and its validation.\<close>

definition split_chunks ::
  "'a env \<Rightarrow> 'a list \<Rightarrow> int \<Rightarrow> int \<Rightarrow> int \<Rightarrow> int \<Rightarrow> error + 'a list list" where
  "split_chunks env audio chunk_length_ms min_silence_len silence_thresh keep_silence =
     (let chunks = split_on_silence env audio min_silence_len silence_thresh keep_silence
      in if chunks = [] \<or> Max (set (map (\<lambda>chunk. int (length chunk)) chunks)) > chunk_length_ms
         then fixed_length_split audio chunk_length_ms
         else Inr chunks)"

text \<open>Line 191: the path of chunk \<open>i\<close> (counted from 0 by \<open>enumerate\<close>).\<close>

definition chunk_path_of :: "'a env \<Rightarrow> pystr \<Rightarrow> pystr \<Rightarrow> nat \<Rightarrow> pystr" where
  "chunk_path_of env output_dir base_name i =
     path_join env output_dir (base_name @ ascii ''_'' @ fmt_0d 3 (int i + 1) @ ascii ''.mp3'')"

text \<open>Lines 189 to 194: every chunk is exported under its path; a failed export raises.\<close>

fun export_chunks ::
  "'a env \<Rightarrow> pystr \<Rightarrow> pystr \<Rightarrow> nat \<Rightarrow> 'a list list \<Rightarrow> 'a fs \<Rightarrow> pystr list
   \<Rightarrow> error + (pystr list \<times> 'a fs)" where
  "export_chunks env output_dir base_name i [] fs chunk_files = Inr (chunk_files, fs)"
| "export_chunks env output_dir base_name i (chunk # chunks) fs chunk_files =
     (let chunk_path = chunk_path_of env output_dir base_name i
      in if writable env chunk_path
         then export_chunks env output_dir base_name (Suc i) chunks
                (fs\<lparr>contents := (contents fs)(chunk_path \<mapsto> Audio chunk)\<rparr>)
                (chunk_files @ [chunk_path])
         else Inl IOError)"

text \<open>
  Lines 154 to 201. The output directory is made sure of first, before the clip is loaded
  and its length looked at. \<open>AudioSegment.from_file\<close> reads the audio stored under the path.
\<close>

definition split_audio ::
  "'a env \<Rightarrow> 'a fs \<Rightarrow> pystr \<Rightarrow> pystr \<Rightarrow> int \<Rightarrow> int \<Rightarrow> int \<Rightarrow> int
   \<Rightarrow> error + (pystr list \<times> 'a fs)" where
  "split_audio env fs audio_path output_dir chunk_length_ms min_silence_len silence_thresh
     keep_silence =
     (case ensure_directory env fs output_dir of
        Inl e \<Rightarrow> Inl e
      | Inr fs0 \<Rightarrow>
          (case contents fs0 audio_path of
             Some (Audio audio) \<Rightarrow>
               (let base_name = fst (path_splitext env (path_basename env audio_path));
                    total_length_ms = int (length audio)
                in if total_length_ms \<le> chunk_length_ms then Inr ([audio_path], fs0)
                   else (case split_chunks env audio chunk_length_ms min_silence_len
                                silence_thresh keep_silence of
                           Inl e \<Rightarrow> Inl e
                         | Inr chunks \<Rightarrow>
                             export_chunks env output_dir base_name 0 chunks fs0 []))
           | _ \<Rightarrow> Inl AudioLoadError))"

subsection \<open>Orchestration and merging: \<open>transcribe_long_audio\<close>\<close>

text \<open>The variables of the loop of lines 238 to 261, and the files written so far.\<close>

record 'a merge_state =
  all_segments :: "segment list"
  total_duration :: real
  files :: "'a fs"

text \<open>Lines 252 to 254: the timestamps of a chunk's segments are rewritten in place.\<close>

definition adjust_timestamps :: "real \<Rightarrow> segment list \<Rightarrow> segment list" where
  "adjust_timestamps offset segs =
     map (\<lambda>s. s\<lparr>seg_start := seg_start s + offset, seg_end := seg_end s + offset\<rparr>) segs"

text \<open>
  Lines 242 to 261: the body of the loop. Whatever is raised inside the \<open>try\<close> is caught
  and the loop goes on with the variables as they are. Line 257 reads
  \<open>result["segments"][-1]["end"]\<close> after lines 252 to 254 have rewritten the segment
  dictionaries in place, so it reads the adjusted value.
\<close>

definition process_chunk ::
  "'a env \<Rightarrow> transcriber \<Rightarrow> pystr \<Rightarrow> 'a merge_state \<Rightarrow> pystr \<Rightarrow> 'a merge_state" where
  "process_chunk env t language st chunk_path =
     (case transcribe_audio env t chunk_path language of
        Inl e \<Rightarrow> st
      | Inr result \<Rightarrow>
          (let chunk_md_path = fst (path_splitext env chunk_path) @ ascii ''.md''
           in case save_transcript_to_markdown env (files st) result chunk_md_path of
                Inl e \<Rightarrow> st
              | Inr fs' \<Rightarrow>
                  (case tr_segments result of
                     None \<Rightarrow> st\<lparr>files := fs'\<rparr>
                   | Some segs \<Rightarrow>
                       (let adjusted = adjust_timestamps (total_duration st) segs
                        in st\<lparr>all_segments := all_segments st @ adjusted,
                              total_duration := total_duration st
                                + (if adjusted \<noteq> [] then seg_end (last adjusted) else 0),
                              files := fs'\<rparr>))))"

text \<open>Line 241: the loop over the chunk files.\<close>

primrec transcribe_chunks ::
  "'a env \<Rightarrow> transcriber \<Rightarrow> pystr \<Rightarrow> 'a merge_state \<Rightarrow> pystr list \<Rightarrow> 'a merge_state" where
  "transcribe_chunks env t language st [] = st"
| "transcribe_chunks env t language st (chunk_path # chunk_files) =
     transcribe_chunks env t language (process_chunk env t language st chunk_path) chunk_files"

text \<open>Lines 264 to 268: the merged result.\<close>

definition merged_result :: "pystr \<Rightarrow> segment list \<Rightarrow> transcript" where
  "merged_result language segs =
     \<lparr>tr_text = Some (join_space (map seg_text segs)), tr_segments = Some segs,
      tr_language = Some language\<rparr>"

text \<open>Lines 223 to 225: the directory of the chunks when the caller names none.\<close>

definition default_output_dir :: "'a env \<Rightarrow> pystr \<Rightarrow> pystr" where
  "default_output_dir env audio_path =
     path_join env (path_dirname env audio_path)
       (fst (path_splitext env (path_basename env audio_path)))"

text \<open>
  Lines 221 to 228: the output directory; the default one is created when it is missing.
\<close>

definition prepare_output_dir ::
  "'a env \<Rightarrow> 'a fs \<Rightarrow> pystr \<Rightarrow> pystr option \<Rightarrow> error + (pystr \<times> 'a fs)" where
  "prepare_output_dir env fs audio_path output_dir =
     (case output_dir of
        Some d \<Rightarrow> Inr (d, fs)
      | None \<Rightarrow>
          (case ensure_directory env fs (default_output_dir env audio_path) of
             Inl e \<Rightarrow> Inl e
           | Inr fs0 \<Rightarrow> Inr (default_output_dir env audio_path, fs0)))"

text \<open>
  Lines 216 to 275. \<open>split_audio\<close> is called with its default parameters: 10 minutes,
  1000 ms, -40 dB, 500 ms.
\<close>

definition transcribe_long_audio ::
  "'a env \<Rightarrow> transcriber \<Rightarrow> 'a fs \<Rightarrow> pystr \<Rightarrow> pystr option \<Rightarrow> pystr
   \<Rightarrow> error + (transcript \<times> 'a fs)" where
  "transcribe_long_audio env t fs audio_path output_dir language =
     (case get_model env t of
        Inl e \<Rightarrow> Inl e
      | Inr m \<Rightarrow>
          (let t' = t\<lparr>model := Some m\<rparr>
           in case prepare_output_dir env fs audio_path output_dir of
                Inl e \<Rightarrow> Inl e
              | Inr (out, fs0) \<Rightarrow>
                  (case split_audio env fs0 audio_path out (10 * 60 * 1000) 1000 (- 40) 500 of
                     Inl e \<Rightarrow> Inl e
                   | Inr (chunk_files, fs1) \<Rightarrow>
                       if length chunk_files = 1 \<and> hd chunk_files = audio_path
                       then (case transcribe_audio env t' audio_path language of
                               Inl e \<Rightarrow> Inl e
                             | Inr result \<Rightarrow> Inr (result, fs1))
                       else (let st = transcribe_chunks env t' language
                                        \<lparr>all_segments = [], total_duration = 0,
                                         files = fs1\<rparr> chunk_files
                             in Inr (merged_result language (all_segments st), files st)))))"

subsection \<open>Notions used to state the properties\<close>

text \<open>
  What the \<open>try\<close> block of lines 243 to 257 gets from a chunk: nothing when the recognition
  or the writing of the chunk's own document raises or the result has no \<open>segments\<close> key,
  otherwise the segments as the recognizer returned them.
\<close>

definition chunk_segments ::
  "'a env \<Rightarrow> transcriber \<Rightarrow> pystr \<Rightarrow> pystr \<Rightarrow> segment list option" where
  "chunk_segments env t language chunk_path =
     (case transcribe_audio env t chunk_path language of
        Inl e \<Rightarrow> None
      | Inr result \<Rightarrow>
          if writable env (fst (path_splitext env chunk_path) @ ascii ''.md'')
          then tr_segments result else None)"

text \<open>The two variables of the loop, and what one turn of the loop does to them.\<close>

definition merge_vars :: "'a merge_state \<Rightarrow> segment list \<times> real" where
  "merge_vars st = (all_segments st, total_duration st)"

definition merge_step :: "segment list \<times> real \<Rightarrow> segment list option \<Rightarrow> segment list \<times> real" where
  "merge_step acc r =
     (case r of
        None \<Rightarrow> acc
      | Some segs \<Rightarrow>
          (fst acc @ adjust_timestamps (snd acc) segs,
           snd acc + (if segs \<noteq> [] then seg_end (last segs) + snd acc else 0)))"








subsection \<open>A concrete environment for worked runs\<close>

text \<open>
  The recognizer answers from a table of chunk paths and fails on every other path; the
  converter rewrites the traditional character U+9AD4 to the simplified U+4F53; the
  silence splitter returns the given pieces; every path can be written and every directory
  created; the file system holds the recording and has no directory yet; the path functions
  agree with \<open>os.path\<close> on the paths used below (\<open>a.mp3\<close>, \<open>out\<close>, \<open>out/a_001.mp3\<close>).
\<close>

definition seg :: "real \<Rightarrow> real \<Rightarrow> pystr \<Rightarrow> segment" where
  "seg a b txt = \<lparr>seg_start = a, seg_end = b, seg_text = txt\<rparr>"

definition example_recognizer :: "(pystr \<times> segment list) list \<Rightarrow> recognizer" where
  "example_recognizer table =
     (\<lambda>audio_path language.
        case map_of table audio_path of
          Some segs \<Rightarrow> Inr \<lparr>tr_text = Some (concat (map seg_text segs)),
                          tr_segments = Some segs, tr_language = Some language\<rparr>
        | None \<Rightarrow> Inl RecognizerError)"

definition example_converter :: "pystr \<Rightarrow> pystr" where
  "example_converter txt = map (\<lambda>c. if c = 0x9AD4 then 0x4F53 else c) txt"

definition example_env :: "'a list list \<Rightarrow> (pystr \<times> segment list) list \<Rightarrow> 'a env" where
  "example_env pieces table =
     \<lparr>whisper_load_model = Inr (example_recognizer table),
      opencc_convert = example_converter,
      split_on_silence = (\<lambda>audio min_silence_len silence_thresh keep_silence. pieces),
      writable = (\<lambda>p. True), os_makedirs = (\<lambda>dirs p. Inr (insert p dirs)),
      path_join = (\<lambda>d f. d @ 47 # f), path_basename = (\<lambda>p. p), path_dirname = (\<lambda>p. []),
      path_splitext = (\<lambda>p. (takeWhile (\<lambda>c. c \<noteq> 46) p, dropWhile (\<lambda>c. c \<noteq> 46) p))\<rparr>"

definition example_transcriber :: transcriber where
  "example_transcriber = \<lparr>to_simplified = True, model = None\<rparr>"

definition example_fs :: "nat list \<Rightarrow> nat fs" where
  "example_fs audio = \<lparr>contents = [ascii ''a.mp3'' \<mapsto> Audio audio], directories = {}\<rparr>"

text \<open>
  A recording of 25 minutes in which the splitter finds no silence, and the file system
  after its three fixed-length chunks have been exported to the directory \<open>out\<close>.
\<close>

definition example_audio :: "nat list" where
  "example_audio = replicate 1500000 0"

definition example_chunk_fs :: "nat fs" where
  "example_chunk_fs =
     \<lparr>contents = [ascii ''a.mp3'' \<mapsto> Audio example_audio,
                  ascii ''out/a_001.mp3'' \<mapsto> Audio (replicate 600000 0),
                  ascii ''out/a_002.mp3'' \<mapsto> Audio (replicate 600000 0),
                  ascii ''out/a_003.mp3'' \<mapsto> Audio (replicate 300000 0)],
      directories = {ascii ''out''}\<rparr>"

text \<open>
  A recording of 700 seconds: 300 seconds of speech, 100 seconds of silence, 300 seconds of
  speech. The silence splitter cuts the silence out and keeps 500 ms of it on either side,
  as pydub does with \<open>keep_silence = 500\<close>. The second piece starts at 399.5 seconds of
  the recording.
\<close>

definition example_silence_audio :: "nat list" where
  "example_silence_audio = replicate 300000 1 @ replicate 100000 0 @ replicate 300000 2"

definition example_pieces :: "nat list list" where
  "example_pieces = [replicate 300000 1 @ replicate 500 0, replicate 500 0 @ replicate 300000 2]"

definition example_pieces_fs :: "nat fs" where
  "example_pieces_fs =
     \<lparr>contents = [ascii ''a.mp3'' \<mapsto> Audio example_silence_audio,
                  ascii ''out/a_001.mp3'' \<mapsto> Audio (replicate 300000 1 @ replicate 500 0),
                  ascii ''out/a_002.mp3'' \<mapsto> Audio (replicate 500 0 @ replicate 300000 2)],
      directories = {ascii ''out''}\<rparr>"

section \<open>Properties\<close>

subsection \<open>Number formatting\<close>



















subsection \<open>Timestamps of a segment line\<close>




subsection \<open>The metadata block\<close>



subsection \<open>Script normalization\<close>

text \<open>
  Claim C9. With normalization enabled, a result of the recognizer is returned as it is
  for every language other than \<open>zh\<close>; for \<open>zh\<close> the text of the transcript and the text
  of every segment are rewritten by the converter.
\<close>

theorem normalization_only_for_zh:
  assumes "to_simplified t" "get_model env t = Inr m" "m audio_path language = Inr result"
  shows "(language \<noteq> ascii ''zh'' \<longrightarrow> transcribe_audio env t audio_path language = Inr result)
       \<and> (language = ascii ''zh'' \<and> tr_text result = Some txt \<and> tr_segments result = Some segs \<longrightarrow>
            transcribe_audio env t audio_path language =
            Inr (result\<lparr>tr_text := Some (opencc_convert env txt),
                   tr_segments := Some (map (\<lambda>s. s\<lparr>seg_text := opencc_convert env (seg_text s)\<rparr>) segs)\<rparr>))"
  using assms by (auto simp: transcribe_audio_def convert_to_simplified_def)

theorem normalization_only_for_zh_witness:
  "transcribe_audio (example_env [] [(ascii ''a.mp3'', [seg 0 2 [0x9AD4]])] :: nat env)
     example_transcriber (ascii ''a.mp3'') (ascii ''en'')
   = Inr \<lparr>tr_text = Some [0x9AD4], tr_segments = Some [seg 0 2 [0x9AD4]],
          tr_language = Some (ascii ''en'')\<rparr>
   \<and> transcribe_audio (example_env [] [(ascii ''a.mp3'', [seg 0 2 [0x9AD4]])] :: nat env)
       example_transcriber (ascii ''a.mp3'') (ascii ''zh'')
     = Inr \<lparr>tr_text = Some [0x4F53], tr_segments = Some [seg 0 2 [0x4F53]],
            tr_language = Some (ascii ''zh'')\<rparr>"
proof -
  let ?env = "example_env [] [(ascii ''a.mp3'', [seg 0 2 [0x9AD4]])] :: nat env"
  let ?m = "example_recognizer [(ascii ''a.mp3'', [seg 0 2 [0x9AD4]])]"
  have s: "to_simplified example_transcriber" by (simp add: example_transcriber_def)
  have g: "get_model ?env example_transcriber = Inr ?m"
    by (simp add: get_model_def example_transcriber_def example_env_def)
  have en: "?m (ascii ''a.mp3'') (ascii ''en'')
      = Inr \<lparr>tr_text = Some [0x9AD4], tr_segments = Some [seg 0 2 [0x9AD4]],
             tr_language = Some (ascii ''en'')\<rparr>"
    by (simp add: example_recognizer_def seg_def)
  have zh: "?m (ascii ''a.mp3'') (ascii ''zh'')
      = Inr \<lparr>tr_text = Some [0x9AD4], tr_segments = Some [seg 0 2 [0x9AD4]],
             tr_language = Some (ascii ''zh'')\<rparr>"
    by (simp add: example_recognizer_def seg_def)
  have ne: "ascii ''en'' \<noteq> ascii ''zh''" by (simp add: ascii_def)
  show ?thesis
    using ne normalization_only_for_zh [OF s g en] normalization_only_for_zh [OF s g zh]
    by (simp add: example_env_def example_converter_def seg_def)
qed

subsection \<open>The loop over the chunks\<close>

lemma transcribe_audio_model_loaded:
  "get_model env t = Inr m \<Longrightarrow>
   transcribe_audio env (t\<lparr>model := Some m\<rparr>) audio_path language =
   transcribe_audio env t audio_path language"
  by (simp add: transcribe_audio_def get_model_def convert_to_simplified_def
      split: sum.splits option.splits)

lemma last_adjust:
  "segs \<noteq> [] \<Longrightarrow> seg_end (last (adjust_timestamps d segs)) = seg_end (last segs) + d"
  by (simp add: adjust_timestamps_def last_map)

lemma adjust_Nil_iff: "adjust_timestamps d segs = [] \<longleftrightarrow> segs = []"
  by (simp add: adjust_timestamps_def)

lemma adjust_zero: "adjust_timestamps 0 segs = segs"
  by (induction segs) (simp_all add: adjust_timestamps_def)

lemma chunk_segments_model_loaded:
  "get_model env t = Inr m \<Longrightarrow>
   chunk_segments env (t\<lparr>model := Some m\<rparr>) language p = chunk_segments env t language p"
  by (simp add: chunk_segments_def transcribe_audio_model_loaded)

lemma process_chunk_vars:
  "merge_vars (process_chunk env t language st p) =
   merge_step (merge_vars st) (chunk_segments env t language p)"
  by (auto simp: process_chunk_def chunk_segments_def merge_step_def merge_vars_def
        save_transcript_to_markdown_def Let_def last_adjust adjust_Nil_iff
      split: sum.splits option.splits)

lemma transcribe_chunks_vars:
  "merge_vars (transcribe_chunks env t language st ps) =
   foldl merge_step (merge_vars st) (map (chunk_segments env t language) ps)"
  by (induction ps arbitrary: st) (simp_all add: process_chunk_vars)

lemma foldl_merge_step_skip:
  "foldl merge_step acc (map f ps) = foldl merge_step acc (map f (filter (\<lambda>p. f p \<noteq> None) ps))"
  by (induction ps arbitrary: acc) (auto simp: merge_step_def)

lemma foldl_merge_step_all_fail:
  "\<forall>p\<in>set ps. f p = None \<Longrightarrow> foldl merge_step acc (map f ps) = acc"
  by (induction ps arbitrary: acc) (auto simp: merge_step_def)

lemma all_segments_vars: "all_segments st = fst (merge_vars st)"
  by (simp add: merge_vars_def)

lemma merge_step_texts:
  "map seg_text (fst (foldl merge_step acc rs)) =
   map seg_text (fst acc)
   @ concat (map (\<lambda>r. case r of None \<Rightarrow> [] | Some segs \<Rightarrow> map seg_text segs) rs)"
  by (induction rs arbitrary: acc)
     (auto simp: merge_step_def adjust_timestamps_def comp_def split: option.splits)

lemma transcribe_long_audio_multi:
  assumes "get_model env t = Inr m"
    and "prepare_output_dir env fs audio_path output_dir = Inr (out, fs0)"
    and "split_audio env fs0 audio_path out (10 * 60 * 1000) 1000 (- 40) 500
         = Inr (chunk_files, fs1)"
    and "\<not> (length chunk_files = 1 \<and> hd chunk_files = audio_path)"
  shows "\<exists>fs2. transcribe_long_audio env t fs audio_path output_dir language =
           Inr (merged_result language
                  (all_segments (transcribe_chunks env (t\<lparr>model := Some m\<rparr>) language
                     \<lparr>all_segments = [], total_duration = 0, files = fs1\<rparr> chunk_files)), fs2)"
  using assms by (auto simp: transcribe_long_audio_def Let_def)

text \<open>
  Claim C2. In a run that goes through the loop (the model is loaded, the output directory
  is there, the split succeeded and did not return the clip itself), a chunk for which the
  \<open>try\<close> block raises leaves the merged segments and the running offset as they were,
  and the loop goes on: the run never raises, and it returns the transcript whose segments
  are the merge of the chunks that did not fail, with the texts of these chunks' segments
  in order and nothing for a failed chunk, and whose text is these texts joined by spaces.
  When every chunk fails the result is the transcript with empty text and no segments.
  With three chunks of which only the second fails, the result has the segments of the
  first chunk followed by those of the third, moved by the end of the last segment of the
  first chunk (by 0 when the first chunk has no segment).
\<close>

theorem failed_chunks_are_skipped:
  assumes "get_model env t = Inr m"
    and "prepare_output_dir env fs audio_path output_dir = Inr (out, fs0)"
    and "split_audio env fs0 audio_path out (10 * 60 * 1000) 1000 (- 40) 500
         = Inr (chunk_files, fs1)"
    and "\<not> (length chunk_files = 1 \<and> hd chunk_files = audio_path)"
  shows "(chunk_segments env t language p = None \<longrightarrow>
            merge_vars (process_chunk env (t\<lparr>model := Some m\<rparr>) language st p) = merge_vars st)
       \<and> (\<exists>segs fs2.
             transcribe_long_audio env t fs audio_path output_dir language =
               Inr (\<lparr>tr_text = Some (join_space (map seg_text segs)), tr_segments = Some segs,
                     tr_language = Some language\<rparr>, fs2)
             \<and> segs = all_segments (transcribe_chunks env (t\<lparr>model := Some m\<rparr>) language
                         \<lparr>all_segments = [], total_duration = 0, files = fs1\<rparr>
                         (filter (\<lambda>p. chunk_segments env t language p \<noteq> None) chunk_files))
             \<and> map seg_text segs =
                 concat (map (\<lambda>p. case chunk_segments env t language p of
                                     None \<Rightarrow> [] | Some segs' \<Rightarrow> map seg_text segs')
                           chunk_files))
       \<and> ((\<forall>p\<in>set chunk_files. chunk_segments env t language p = None) \<longrightarrow>
            (\<exists>fs2. transcribe_long_audio env t fs audio_path output_dir language =
               Inr (\<lparr>tr_text = Some [], tr_segments = Some [], tr_language = Some language\<rparr>, fs2)))
       \<and> (chunk_files = [p1, p2, p3] \<and> chunk_segments env t language p1 = Some segs1
            \<and> chunk_segments env t language p2 = None
            \<and> chunk_segments env t language p3 = Some segs3 \<longrightarrow>
            (\<exists>fs2. transcribe_long_audio env t fs audio_path output_dir language =
               Inr (\<lparr>tr_text = Some (join_space (map seg_text segs1 @ map seg_text segs3)),
                     tr_segments = Some
                       (segs1
                        @ map (\<lambda>s. s\<lparr>seg_start := seg_start s
                                          + (if segs1 \<noteq> [] then seg_end (last segs1) else 0),
                                       seg_end := seg_end s
                                          + (if segs1 \<noteq> [] then seg_end (last segs1) else 0)\<rparr>)
                            segs3),
                     tr_language = Some language\<rparr>, fs2)))"
proof -
  let ?t = "t\<lparr>model := Some m\<rparr>"
  let ?st0 = "\<lparr>all_segments = [], total_duration = 0, files = fs1\<rparr>"
  let ?cs = "chunk_segments env t language"
  let ?all = "all_segments (transcribe_chunks env ?t language ?st0 chunk_files)"
  have cs: "chunk_segments env ?t language = ?cs"
    using assms(1) by (auto simp: chunk_segments_model_loaded)
  obtain fs2 where run0: "transcribe_long_audio env t fs audio_path output_dir language =
      Inr (merged_result language ?all, fs2)"
    using transcribe_long_audio_multi[OF assms] by blast
  then have run: "transcribe_long_audio env t fs audio_path output_dir language =
      Inr (\<lparr>tr_text = Some (join_space (map seg_text ?all)), tr_segments = Some ?all,
            tr_language = Some language\<rparr>, fs2)"
    by (simp add: merged_result_def)
  have v0: "merge_vars ?st0 = ([], 0)" by (simp add: merge_vars_def)
  have segs: "\<And>ps. all_segments (transcribe_chunks env ?t language ?st0 ps) =
      fst (foldl merge_step ([], 0) (map ?cs ps))"
    by (simp add: all_segments_vars transcribe_chunks_vars cs v0)
  have a: "chunk_segments env t language p = None \<longrightarrow>
            merge_vars (process_chunk env ?t language st p) = merge_vars st"
    by (simp add: process_chunk_vars cs merge_step_def)
  have b: "?all = all_segments (transcribe_chunks env ?t language ?st0
         (filter (\<lambda>p. ?cs p \<noteq> None) chunk_files))"
    unfolding segs by (rule arg_cong[where f = fst], rule foldl_merge_step_skip)
  have b': "map seg_text ?all =
      concat (map (\<lambda>p. case ?cs p of None \<Rightarrow> [] | Some segs' \<Rightarrow> map seg_text segs') chunk_files)"
    unfolding segs by (simp add: merge_step_texts comp_def)
  have c: "(\<forall>p\<in>set chunk_files. ?cs p = None) \<longrightarrow> ?all = []"
    unfolding segs by (simp add: foldl_merge_step_all_fail)
  have d: "chunk_files = [p1, p2, p3] \<and> ?cs p1 = Some segs1 \<and> ?cs p2 = None
            \<and> ?cs p3 = Some segs3 \<longrightarrow>
      ?all = segs1 @ map (\<lambda>s. s\<lparr>seg_start := seg_start s
                                          + (if segs1 \<noteq> [] then seg_end (last segs1) else 0),
                                       seg_end := seg_end s
                                          + (if segs1 \<noteq> [] then seg_end (last segs1) else 0)\<rparr>)
                            segs3"
    unfolding segs by (auto simp: merge_step_def adjust_zero adjust_timestamps_def)
  show ?thesis
  proof (intro conjI)
    show "chunk_segments env t language p = None \<longrightarrow>
            merge_vars (process_chunk env ?t language st p) = merge_vars st"
      by (rule a)
    show "\<exists>segs fs2.
             transcribe_long_audio env t fs audio_path output_dir language =
               Inr (\<lparr>tr_text = Some (join_space (map seg_text segs)), tr_segments = Some segs,
                     tr_language = Some language\<rparr>, fs2)
             \<and> segs = all_segments (transcribe_chunks env ?t language ?st0
                         (filter (\<lambda>p. ?cs p \<noteq> None) chunk_files))
             \<and> map seg_text segs =
                 concat (map (\<lambda>p. case ?cs p of None \<Rightarrow> [] | Some segs' \<Rightarrow> map seg_text segs')
                           chunk_files)"
      using run b b' by blast
    show "(\<forall>p\<in>set chunk_files. ?cs p = None) \<longrightarrow>
            (\<exists>fs2. transcribe_long_audio env t fs audio_path output_dir language =
               Inr (\<lparr>tr_text = Some [], tr_segments = Some [], tr_language = Some language\<rparr>, fs2))"
    proof
      assume "\<forall>p\<in>set chunk_files. ?cs p = None"
      with c have "?all = []" by blast
      with run show "\<exists>fs2. transcribe_long_audio env t fs audio_path output_dir language =
               Inr (\<lparr>tr_text = Some [], tr_segments = Some [], tr_language = Some language\<rparr>, fs2)"
        by simp
    qed
    show "chunk_files = [p1, p2, p3] \<and> ?cs p1 = Some segs1 \<and> ?cs p2 = None
            \<and> ?cs p3 = Some segs3 \<longrightarrow>
            (\<exists>fs2. transcribe_long_audio env t fs audio_path output_dir language =
               Inr (\<lparr>tr_text = Some (join_space (map seg_text segs1 @ map seg_text segs3)),
                     tr_segments = Some
                       (segs1
                        @ map (\<lambda>s. s\<lparr>seg_start := seg_start s
                                          + (if segs1 \<noteq> [] then seg_end (last segs1) else 0),
                                       seg_end := seg_end s
                                          + (if segs1 \<noteq> [] then seg_end (last segs1) else 0)\<rparr>)
                            segs3),
                     tr_language = Some language\<rparr>, fs2))"
    proof
      assume "chunk_files = [p1, p2, p3] \<and> ?cs p1 = Some segs1 \<and> ?cs p2 = None
            \<and> ?cs p3 = Some segs3"
      with d have eq: "?all = segs1 @ map (\<lambda>s. s\<lparr>seg_start := seg_start s
                                          + (if segs1 \<noteq> [] then seg_end (last segs1) else 0),
                                       seg_end := seg_end s
                                          + (if segs1 \<noteq> [] then seg_end (last segs1) else 0)\<rparr>)
                            segs3"
        by blast
      have tx: "map seg_text ?all = map seg_text segs1 @ map seg_text segs3"
        unfolding eq by (simp add: comp_def)
      from run[unfolded tx, unfolded eq] show "\<exists>fs2. transcribe_long_audio env t fs audio_path output_dir language =
               Inr (\<lparr>tr_text = Some (join_space (map seg_text segs1 @ map seg_text segs3)),
                     tr_segments = Some
                       (segs1
                        @ map (\<lambda>s. s\<lparr>seg_start := seg_start s
                                          + (if segs1 \<noteq> [] then seg_end (last segs1) else 0),
                                       seg_end := seg_end s
                                          + (if segs1 \<noteq> [] then seg_end (last segs1) else 0)\<rparr>)
                            segs3),
                     tr_language = Some language\<rparr>, fs2)"
        by blast
    qed
  qed
qed

subsection \<open>Order of the merged timestamps\<close>





subsection \<open>A worked run of three chunks\<close>

lemma replicate_2: "replicate 2 x = [x, x]"
  by (simp add: numeral_2_eq_2)

lemma prepare_output_dir_Some: "prepare_output_dir env fs audio_path (Some d) = Inr (d, fs)"
  by (simp add: prepare_output_dir_def)

lemma example_split:
  "split_audio (example_env [] table) (example_fs example_audio) (ascii ''a.mp3'')
     (ascii ''out'') (10 * 60 * 1000) 1000 (- 40) 500
   = Inr ([ascii ''out/a_001.mp3'', ascii ''out/a_002.mp3'', ascii ''out/a_003.mp3''],
          example_chunk_fs)"
  by (simp add: split_audio_def ensure_directory_def path_exists_def makedirs_def
      split_chunks_def fixed_length_split_def py_range_def
      range_up.simps audio_slice_def chunk_path_of_def fmt_0d_def digits.simps ascii_def
      example_env_def example_fs_def example_audio_def example_chunk_fs_def Let_def
      replicate_2)

lemma example_model:
  "get_model (example_env pieces table) example_transcriber = Inr (example_recognizer table)"
  by (simp add: get_model_def example_env_def example_transcriber_def)

lemma example_chunk_segments:
  "chunk_segments (example_env pieces table) example_transcriber (ascii ''zh'') p =
     (case map_of table p of
        Some segs \<Rightarrow> Some (map (\<lambda>s. s\<lparr>seg_text := example_converter (seg_text s)\<rparr>) segs)
      | None \<Rightarrow> None)"
  by (simp add: chunk_segments_def transcribe_audio_def get_model_def example_env_def
      example_transcriber_def example_recognizer_def convert_to_simplified_def
      split: option.splits)

lemma example_run:
  "\<exists>fs2. transcribe_long_audio (example_env [] table) example_transcriber
      (example_fs example_audio) (ascii ''a.mp3'') (Some (ascii ''out'')) (ascii ''zh'')
    = Inr (merged_result (ascii ''zh'')
        (fst (foldl merge_step ([], 0)
           (map (chunk_segments (example_env [] table :: nat env) example_transcriber (ascii ''zh''))
              [ascii ''out/a_001.mp3'', ascii ''out/a_002.mp3'', ascii ''out/a_003.mp3'']))), fs2)"
proof -
  let ?files = "[ascii ''out/a_001.mp3'', ascii ''out/a_002.mp3'', ascii ''out/a_003.mp3'']"
  have np: "\<not> (length ?files = 1 \<and> hd ?files = ascii ''a.mp3'')" by simp
  have v0: "merge_vars \<lparr>all_segments = [], total_duration = 0, files = example_chunk_fs\<rparr>
      = ([], 0)"
    by (simp add: merge_vars_def)
  show ?thesis
    using transcribe_long_audio_multi
      [OF example_model prepare_output_dir_Some example_split np,
        where language = "ascii ''zh''" and table1 = table]
    unfolding all_segments_vars transcribe_chunks_vars
      chunk_segments_model_loaded [OF example_model] v0
    by blast
qed

theorem failed_chunks_are_skipped_witness:
  "map_sum id fst (transcribe_long_audio
      (example_env [] [(ascii ''out/a_001.mp3'', [seg 0 590 (ascii ''a'')]),
                       (ascii ''out/a_003.mp3'', [seg 1 200 (ascii ''c'')])])
      example_transcriber (example_fs example_audio) (ascii ''a.mp3'') (Some (ascii ''out''))
      (ascii ''zh''))
   = Inr \<lparr>tr_text = Some (ascii ''a c''),
          tr_segments = Some [seg 0 590 (ascii ''a''), seg 591 790 (ascii ''c'')],
          tr_language = Some (ascii ''zh'')\<rparr>
   \<and> map_sum id fst (transcribe_long_audio (example_env [] []) example_transcriber
        (example_fs example_audio) (ascii ''a.mp3'') (Some (ascii ''out'')) (ascii ''zh''))
     = Inr \<lparr>tr_text = Some [], tr_segments = Some [], tr_language = Some (ascii ''zh'')\<rparr>"
proof -
  let ?tb = "[(ascii ''out/a_001.mp3'', [seg 0 590 (ascii ''a'')]),
              (ascii ''out/a_003.mp3'', [seg 1 200 (ascii ''c'')])]"
  let ?files = "[ascii ''out/a_001.mp3'', ascii ''out/a_002.mp3'', ascii ''out/a_003.mp3'']"
  have np: "\<not> (length ?files = 1 \<and> hd ?files = ascii ''a.mp3'')" by simp
  have c1: "chunk_segments (example_env [] ?tb :: nat env) example_transcriber (ascii ''zh'')
      (ascii ''out/a_001.mp3'') = Some [seg 0 590 (ascii ''a'')]"
    unfolding example_chunk_segments by (simp add: seg_def ascii_def example_converter_def)
  have c2: "chunk_segments (example_env [] ?tb :: nat env) example_transcriber (ascii ''zh'')
      (ascii ''out/a_002.mp3'') = None"
    unfolding example_chunk_segments by (simp add: ascii_def)
  have c3: "chunk_segments (example_env [] ?tb :: nat env) example_transcriber (ascii ''zh'')
      (ascii ''out/a_003.mp3'') = Some [seg 1 200 (ascii ''c'')]"
    unfolding example_chunk_segments by (simp add: seg_def ascii_def example_converter_def)
  have none: "\<forall>p\<in>set ?files. chunk_segments (example_env [] [] :: nat env) example_transcriber
      (ascii ''zh'') p = None"
    by (simp add: example_chunk_segments)
  from failed_chunks_are_skipped
      [OF example_model prepare_output_dir_Some example_split np, where language = "ascii ''zh''"
      and ?p1.0 = "ascii ''out/a_001.mp3''" and ?p2.0 = "ascii ''out/a_002.mp3''"
      and ?p3.0 = "ascii ''out/a_003.mp3''" and ?segs1.0 = "[seg 0 590 (ascii ''a'')]"
      and ?segs3.0 = "[seg 1 200 (ascii ''c'')]"] c1 c2 c3
  have "\<exists>fs2. transcribe_long_audio (example_env [] ?tb) example_transcriber
      (example_fs example_audio) (ascii ''a.mp3'') (Some (ascii ''out'')) (ascii ''zh'')
      = Inr (\<lparr>tr_text = Some (join_space (map seg_text [seg 0 590 (ascii ''a'')]
                                          @ map seg_text [seg 1 200 (ascii ''c'')])),
              tr_segments = Some ([seg 0 590 (ascii ''a'')]
                 @ map (\<lambda>s. s\<lparr>seg_start := seg_start s
                          + (if [seg 0 590 (ascii ''a'')] \<noteq> []
                             then seg_end (last [seg 0 590 (ascii ''a'')]) else 0),
                        seg_end := seg_end s
                          + (if [seg 0 590 (ascii ''a'')] \<noteq> []
                             then seg_end (last [seg 0 590 (ascii ''a'')]) else 0)\<rparr>)
                     [seg 1 200 (ascii ''c'')]),
              tr_language = Some (ascii ''zh'')\<rparr>, fs2)"
    by blast
  then have a: "map_sum id fst (transcribe_long_audio (example_env [] ?tb) example_transcriber
      (example_fs example_audio) (ascii ''a.mp3'') (Some (ascii ''out'')) (ascii ''zh''))
      = Inr \<lparr>tr_text = Some (ascii ''a c''),
          tr_segments = Some [seg 0 590 (ascii ''a''), seg 591 790 (ascii ''c'')],
          tr_language = Some (ascii ''zh'')\<rparr>"
    by (auto simp: seg_def ascii_def)
  from failed_chunks_are_skipped
      [OF example_model prepare_output_dir_Some example_split np, where language = "ascii ''zh''"]
    none
  have "\<exists>fs2. transcribe_long_audio (example_env [] []) example_transcriber
      (example_fs example_audio) (ascii ''a.mp3'') (Some (ascii ''out'')) (ascii ''zh'')
      = Inr (\<lparr>tr_text = Some [], tr_segments = Some [], tr_language = Some (ascii ''zh'')\<rparr>, fs2)"
    by blast
  then have b: "map_sum id fst (transcribe_long_audio (example_env [] []) example_transcriber
        (example_fs example_audio) (ascii ''a.mp3'') (Some (ascii ''out'')) (ascii ''zh''))
     = Inr \<lparr>tr_text = Some [], tr_segments = Some [], tr_language = Some (ascii ''zh'')\<rparr>"
    by auto
  from a b show ?thesis by (intro conjI)
qed

text \<open>
  Claim C1. The running offset starts at 0 and each chunk's segments are moved by it and
  appended; the merged text is the texts of the merged segments joined by spaces. The
  offset, however, is advanced by the end of the chunk's last segment as read after the
  segments have been rewritten in place (line 257 after lines 252 to 254), that is by the
  end the recognizer returned plus the offset itself. In a run of three chunks whose
  recognized speech ends at 10 seconds in each, the third chunk is placed at 30 seconds;
  advancing by each chunk's own last end would place it at 20.
\<close>

theorem three_chunk_offsets_double:
  "map_sum id fst (transcribe_long_audio
      (example_env [] [(ascii ''out/a_001.mp3'', [seg 0 10 (ascii ''a'')]),
                       (ascii ''out/a_002.mp3'', [seg 0 10 (ascii ''b'')]),
                       (ascii ''out/a_003.mp3'', [seg 0 10 (ascii ''c'')])])
      example_transcriber (example_fs example_audio) (ascii ''a.mp3'') (Some (ascii ''out''))
      (ascii ''zh''))
   = Inr \<lparr>tr_text = Some (ascii ''a b c''),
          tr_segments = Some [seg 0 10 (ascii ''a''), seg 10 20 (ascii ''b''),
                              seg 30 40 (ascii ''c'')],
          tr_language = Some (ascii ''zh'')\<rparr>"
proof -
  let ?tb = "[(ascii ''out/a_001.mp3'', [seg 0 10 (ascii ''a'')]),
              (ascii ''out/a_002.mp3'', [seg 0 10 (ascii ''b'')]),
              (ascii ''out/a_003.mp3'', [seg 0 10 (ascii ''c'')])]"
  let ?files = "[ascii ''out/a_001.mp3'', ascii ''out/a_002.mp3'', ascii ''out/a_003.mp3'']"
  have cs: "map (chunk_segments (example_env [] ?tb :: nat env) example_transcriber (ascii ''zh''))
      ?files = [Some [seg 0 10 (ascii ''a'')], Some [seg 0 10 (ascii ''b'')],
                Some [seg 0 10 (ascii ''c'')]]"
    unfolding example_chunk_segments by (simp add: seg_def ascii_def example_converter_def)
  show ?thesis
    using example_run [of ?tb] unfolding cs
    by (auto simp: merge_step_def adjust_timestamps_def merged_result_def seg_def ascii_def)
qed



subsection \<open>The fixed-length split\<close>

lemma length_range_up:
  "0 < step \<Longrightarrow> length (range_up i stop step) = nat (- ((i - stop) div step))"
proof (induction i stop step rule: range_up.induct)
  case (1 i stop step)
  show ?case
  proof (cases "i < stop")
    case True
    have a: "(i + step - stop) div step = (i - stop) div step + 1"
      using 1(2) div_add_self1[of step "i - stop"] by (simp add: algebra_simps)
    have "(i - stop) div step < 0"
      using True 1(2) by (simp add: pos_imp_zdiv_neg_iff)
    then show ?thesis using 1 True a by (subst range_up.simps) simp
  next
    case False
    then have "0 \<le> (i - stop) div step" using 1(2) by (simp add: pos_imp_zdiv_nonneg_iff)
    then show ?thesis using False by (subst range_up.simps) simp
  qed
qed

lemma nth_range_up:
  "0 < step \<Longrightarrow> k < length (range_up i stop step) \<Longrightarrow>
   range_up i stop step ! k = i + int k * step"
proof (induction i stop step arbitrary: k rule: range_up.induct)
  case (1 i stop step)
  from 1(3) have lt: "i < stop" by (subst (asm) range_up.simps) (simp split: if_splits)
  then have unf: "range_up i stop step = i # range_up (i + step) stop step"
    using 1(2) by (subst range_up.simps) simp
  show ?case
  proof (cases k)
    case 0
    then show ?thesis by (simp add: unf)
  next
    case (Suc j)
    then have "j < length (range_up (i + step) stop step)" using 1(3) unf by simp
    then have "range_up (i + step) stop step ! j = i + step + int j * step"
      using 1(1)[of j] 1(2) lt by simp
    then show ?thesis using Suc by (simp add: unf algebra_simps)
  qed
qed

lemma range_up_lt_stop:
  "0 < step \<Longrightarrow> x \<in> set (range_up i stop step) \<Longrightarrow> i \<le> x \<and> x < stop"
proof (induction i stop step rule: range_up.induct)
  case (1 i stop step)
  from 1(3) have lt: "i < stop" by (subst (asm) range_up.simps) (simp split: if_splits)
  then have unf: "range_up i stop step = i # range_up (i + step) stop step"
    using 1(2) by (subst range_up.simps) simp
  show ?case using 1 lt unf by auto
qed

lemma audio_slice_take_drop:
  "0 \<le> i \<Longrightarrow> 0 \<le> n \<Longrightarrow> audio_slice audio i (i + n) = take (nat n) (drop (nat i) audio)"
  by (auto simp: audio_slice_def Let_def min_def take_all_iff intro!: take_all[symmetric]
      dest: not_less[THEN iffD1])

lemma concat_windows:
  "0 < step \<Longrightarrow> 0 \<le> i \<Longrightarrow>
   concat (map (\<lambda>i. audio_slice audio i (i + step)) (range_up i (int (length audio)) step))
   = drop (nat i) audio"
proof (induction i "int (length audio)" step rule: range_up.induct)
  case (1 i step)
  show ?case
  proof (cases "i < int (length audio)")
    case True
    then have unf: "range_up i (int (length audio)) step = i # range_up (i + step) (int (length audio)) step"
      using 1(2) by (subst range_up.simps) simp
    have "drop (nat (i + step)) audio = drop (nat step) (drop (nat i) audio)"
      using 1(2,3) by (simp add: nat_add_distrib add.commute)
    then have e: "take (nat step) (drop (nat i) audio) @ drop (nat (i + step)) audio
        = drop (nat i) audio"
      by (simp only: append_take_drop_id)
    have ih: "concat (map (\<lambda>i. audio_slice audio i (i + step))
        (range_up (i + step) (int (length audio)) step)) = drop (nat (i + step)) audio"
      using 1 True by simp
    have "audio_slice audio i (i + step) = take (nat step) (drop (nat i) audio)"
      using 1(2,3) by (simp add: audio_slice_take_drop)
    then show ?thesis
      unfolding unf using ih e by simp
  next
    case False
    then show ?thesis using 1(3) by (subst range_up.simps) simp
  qed
qed

text \<open>
  Claim C3. For a limit \<open>L > 0\<close> and a clip longer than \<open>L\<close>, the result of the silence
  splitter is kept when it is not empty and none of its pieces is longer than \<open>L\<close>, and
  it is dropped otherwise. When it is dropped the clip is cut into \<open>ceil(len / L)\<close> windows:
  window \<open>k\<close>, counted from 0, is the \<open>L\<close> frames from frame \<open>k * L\<close> on, or what is
  left of the clip; every window but the last has exactly \<open>L\<close> frames, and the windows in
  order make up the clip. A clip of 12 minutes that the silence splitter returns in one
  piece is cut, with a limit of 10 minutes, into its first 10 minutes and its last 2.
\<close>

theorem fallback_to_fixed_length:
  fixes audio :: "'a list"
  assumes "0 < L" and "L < int (length audio)"
  shows "(split_on_silence env audio min_silence_len silence_thresh keep_silence \<noteq> []
          \<and> (\<forall>c\<in>set (split_on_silence env audio min_silence_len silence_thresh keep_silence).
                int (length c) \<le> L) \<longrightarrow>
            split_chunks env audio L min_silence_len silence_thresh keep_silence
            = Inr (split_on_silence env audio min_silence_len silence_thresh keep_silence))
       \<and> (split_on_silence env audio min_silence_len silence_thresh keep_silence = []
          \<or> (\<exists>c\<in>set (split_on_silence env audio min_silence_len silence_thresh keep_silence).
                L < int (length c)) \<longrightarrow>
            (\<exists>chunks. split_chunks env audio L min_silence_len silence_thresh keep_silence
                        = Inr chunks
               \<and> length chunks = nat \<lceil>real (length audio) / real_of_int L\<rceil>
               \<and> (\<forall>k<length chunks.
                     chunks ! k = take (nat L) (drop (k * nat L) audio)
                     \<and> (Suc k < length chunks \<longrightarrow> int (length (chunks ! k)) = L))
               \<and> concat chunks = audio))
       \<and> (length audio = 720000
          \<and> split_on_silence env audio min_silence_len silence_thresh keep_silence = [audio] \<longrightarrow>
            split_chunks env audio 600000 min_silence_len silence_thresh keep_silence
            = Inr [take 600000 audio, drop 600000 audio])"
proof (intro conjI impI)
  let ?sil = "split_on_silence env audio min_silence_len silence_thresh keep_silence"
  let ?n = "int (length audio)"
  let ?starts = "range_up 0 ?n L"
  let ?chunks = "map (\<lambda>i. audio_slice audio i (i + L)) ?starts"
  have mx: "?sil \<noteq> [] \<Longrightarrow>
      (L < Max (set (map (\<lambda>chunk. int (length chunk)) ?sil))) = (\<exists>c\<in>set ?sil. L < int (length c))"
    by (subst Max_gr_iff) auto
  {
    assume "?sil \<noteq> [] \<and> (\<forall>c\<in>set ?sil. int (length c) \<le> L)"
    then show "split_chunks env audio L min_silence_len silence_thresh keep_silence = Inr ?sil"
      using mx by (auto simp: split_chunks_def Let_def)
  }
  {
    assume "?sil = [] \<or> (\<exists>c\<in>set ?sil. L < int (length c))"
    then have fb: "split_chunks env audio L min_silence_len silence_thresh keep_silence
        = Inr ?chunks"
      using mx assms(1) by (auto simp: split_chunks_def Let_def fixed_length_split_def py_range_def)
    have len: "length ?chunks = nat \<lceil>real (length audio) / real_of_int L\<rceil>"
    proof -
      have "\<lceil>real (length audio) / real_of_int L\<rceil> = - ((- ?n) div L)"
        using ceiling_divide_eq_div[of ?n L] by simp
      then show ?thesis using assms(1) by (simp add: length_range_up)
    qed
    have nth: "\<forall>k<length ?chunks.
        ?chunks ! k = take (nat L) (drop (k * nat L) audio)
        \<and> (Suc k < length ?chunks \<longrightarrow> int (length (?chunks ! k)) = L)"
    proof (intro allI impI conjI)
      fix k assume k: "k < length ?chunks"
      then have sk: "?starts ! k = int k * L" using assms(1) by (simp add: nth_range_up)
      have "nat (int k * L) = k * nat L" using assms(1) by (simp add: nat_mult_distrib)
      then show c: "?chunks ! k = take (nat L) (drop (k * nat L) audio)"
        using k sk assms(1) by (simp add: audio_slice_take_drop)
      assume "Suc k < length ?chunks"
      then have "?starts ! Suc k \<in> set ?starts" by simp
      moreover have "?starts ! Suc k = int (Suc k) * L"
        using \<open>Suc k < length ?chunks\<close> assms(1) by (simp add: nth_range_up)
      ultimately have "int (Suc k) * L < ?n"
        using range_up_lt_stop[of L "int (Suc k) * L" 0 ?n] assms(1) by simp
      then have "int k * L + L \<le> ?n" by (simp add: algebra_simps)
      then have "nat (int k * L + L) \<le> length audio" by linarith
      moreover have "nat (int k * L + L) = nat (int k * L) + nat L"
        using assms(1) by (intro nat_add_distrib) simp_all
      ultimately have "k * nat L + nat L \<le> length audio"
        using \<open>nat (int k * L) = k * nat L\<close> by simp
      then show "int (length (?chunks ! k)) = L"
        unfolding c using assms(1) by simp
    qed
    have cc: "concat ?chunks = audio"
      using concat_windows[of L 0 audio] assms(1) by simp
    show "\<exists>chunks. split_chunks env audio L min_silence_len silence_thresh keep_silence
                        = Inr chunks
               \<and> length chunks = nat \<lceil>real (length audio) / real_of_int L\<rceil>
               \<and> (\<forall>k<length chunks.
                     chunks ! k = take (nat L) (drop (k * nat L) audio)
                     \<and> (Suc k < length chunks \<longrightarrow> int (length (chunks ! k)) = L))
               \<and> concat chunks = audio"
      using fb len nth cc by blast
  }
  {
    assume h: "length audio = 720000 \<and> ?sil = [audio]"
    have "range_up 0 720000 600000 = [0, 600000]"
      by (simp add: range_up.simps)
    then show "split_chunks env audio 600000 min_silence_len silence_thresh keep_silence
            = Inr [take 600000 audio, drop 600000 audio]"
      using h by (simp add: split_chunks_def Let_def fixed_length_split_def py_range_def
          audio_slice_def)
  }
qed

theorem fallback_to_fixed_length_witness:
  "split_chunks (example_env [[1, 2], [4, 5]] []) [1, 2, 3, 4, 5 :: nat] 2 1000 (- 40) 500
     = Inr [[1, 2], [4, 5]]
   \<and> (\<exists>chunks. split_chunks (example_env [] []) [1, 2, 3, 4, 5 :: nat] 2 1000 (- 40) 500
                   = Inr chunks
          \<and> length chunks = 3
          \<and> (\<forall>k<length chunks.
                chunks ! k = take 2 (drop (k * 2) [1, 2, 3, 4, 5])
                \<and> (Suc k < length chunks \<longrightarrow> int (length (chunks ! k)) = 2))
          \<and> concat chunks = [1, 2, 3, 4, 5])
   \<and> split_chunks (example_env [replicate 720000 0] []) (replicate 720000 (0::nat)) 600000
       1000 (- 40) 500
     = Inr [replicate 600000 0, replicate 120000 0]"
proof -
  have a: "(0::int) < 2" "2 < int (length [1, 2, 3, 4, 5 :: nat])" by simp_all
  have b: "(0::int) < 600000" "600000 < int (length (replicate 720000 (0::nat)))" by simp_all
  have s1: "split_on_silence (example_env [[1, 2], [4, 5]] []) [1, 2, 3, 4, 5 :: nat]
      1000 (- 40) 500 = [[1, 2], [4, 5]]"
    by (simp add: example_env_def)
  have s2: "split_on_silence (example_env [] []) [1, 2, 3, 4, 5 :: nat] 1000 (- 40) 500 = []"
    by (simp add: example_env_def)
  have s3: "split_on_silence (example_env [replicate 720000 0] []) (replicate 720000 (0::nat))
      1000 (- 40) 500 = [replicate 720000 0]"
    by (simp add: example_env_def)
  have c: "nat \<lceil>real (length [1, 2, 3, 4, 5 :: nat]) / real_of_int 2\<rceil> = 3" by simp
  from fallback_to_fixed_length [OF a, of "example_env [[1, 2], [4, 5]] []" 1000 "- 40" 500] s1
  have r1: "split_chunks (example_env [[1, 2], [4, 5]] []) [1, 2, 3, 4, 5 :: nat] 2 1000 (- 40) 500
     = Inr [[1, 2], [4, 5]]"
    by simp
  from fallback_to_fixed_length [OF a, of "example_env [] []" 1000 "- 40" 500] s2
  have r2: "\<exists>chunks. split_chunks (example_env [] []) [1, 2, 3, 4, 5 :: nat] 2 1000 (- 40) 500
                   = Inr chunks
          \<and> length chunks = 3
          \<and> (\<forall>k<length chunks.
                chunks ! k = take 2 (drop (k * 2) [1, 2, 3, 4, 5])
                \<and> (Suc k < length chunks \<longrightarrow> int (length (chunks ! k)) = 2))
          \<and> concat chunks = [1, 2, 3, 4, 5]"
    unfolding c by simp
  from fallback_to_fixed_length [OF b, of "example_env [replicate 720000 0] []" 1000 "- 40" 500] s3
  have r3: "split_chunks (example_env [replicate 720000 0] []) (replicate 720000 (0::nat)) 600000
       1000 (- 40) 500
     = Inr [replicate 600000 0, replicate 120000 0]"
    by simp
  from r1 r2 r3 show ?thesis by blast
qed

end
